theory Spec2Isabelle
  imports Complex_Main
begin

section \<open>Errors, scalars and tensors\<close>

text \<open>
  The exceptions the modelled code can raise. \<open>ShapeMismatch\<close> is the \<open>ValueError\<close> that
  \<open>prepare_latents\<close> raises itself for a generator list of the wrong length;
  \<open>ZeroDivisionError\<close> and \<open>IndexError\<close> are Python's own; \<open>ExternalFailure\<close> stands for any exception
  raised inside a call into torch, diffusers or PIL.
\<close>

datatype error = ShapeMismatch | ZeroDivisionError | IndexError | ExternalFailure

datatype device = CPU | CUDA nat

datatype dtype = Float16 | BFloat16 | Float32 | Float64 | UInt8

text \<open>
  A tensor element is a finite number, an infinity or NaN. A finite element carries the
  real number it denotes: rounding and overflow of the machine formats are not modelled,
  nor is the sign of zero.
\<close>

datatype fval = Fin real | PInf | NInf | NaN

text \<open>\<open>x * s\<close> and \<open>x / s\<close> for a tensor element \<open>x\<close> and a finite Python float \<open>s\<close>.\<close>

fun fmul :: "fval \<Rightarrow> real \<Rightarrow> fval" where
  "fmul (Fin a) s = Fin (a * s)"
| "fmul PInf s = (if 0 < s then PInf else if s < 0 then NInf else NaN)"
| "fmul NInf s = (if 0 < s then NInf else if s < 0 then PInf else NaN)"
| "fmul NaN s = NaN"

fun fdiv :: "fval \<Rightarrow> real \<Rightarrow> fval" where
  "fdiv (Fin a) s =
     (if s \<noteq> 0 then Fin (a / s)
      else if 0 < a then PInf else if a < 0 then NInf else NaN)"
| "fdiv PInf s = (if 0 \<le> s then PInf else NInf)"
| "fdiv NInf s = (if 0 \<le> s then NInf else PInf)"
| "fdiv NaN s = NaN"

text \<open>
  A tensor: its shape, element type, device, and the element found at each multi-index.
  Only the indices inside the shape are meaningful.
\<close>

record tensor =
  shape :: "nat list"
  dtype :: dtype
  device :: device
  elem :: "nat list \<Rightarrow> fval"

definition tensor_to_device :: "tensor \<Rightarrow> device \<Rightarrow> tensor" where
  \<comment> \<open>\<open>t.to(device)\<close>\<close>
  "tensor_to_device t d = t\<lparr>device := d\<rparr>"

definition tensor_to_dtype :: "tensor \<Rightarrow> dtype \<Rightarrow> tensor" where
  \<comment> \<open>\<open>t.to(dtype=...)\<close> between floating-point types\<close>
  "tensor_to_dtype t dt = t\<lparr>dtype := dt\<rparr>"

definition tensor_mul :: "tensor \<Rightarrow> real \<Rightarrow> tensor" where
  \<comment> \<open>\<open>t * s\<close>\<close>
  "tensor_mul t s = t\<lparr>elem := (\<lambda>idx. fmul (elem t idx) s)\<rparr>"

definition tensor_div :: "tensor \<Rightarrow> real \<Rightarrow> tensor" where
  \<comment> \<open>\<open>t / s\<close>\<close>
  "tensor_div t s = t\<lparr>elem := (\<lambda>idx. fdiv (elem t idx) s)\<rparr>"

section \<open>Random generators\<close>

text \<open>
  A \<open>torch.Generator\<close>: the device it lives on, the seed it was last given and how many
  samples were drawn from it since.
\<close>

record generator =
  gen_device :: device
  gen_seed :: int
  gen_offset :: nat

definition Generator :: "device \<Rightarrow> generator" where
  \<comment> \<open>\<open>torch.Generator(device)\<close>; the initial seed is torch's default\<close>
  "Generator d = \<lparr>gen_device = d, gen_seed = 67280421310721, gen_offset = 0\<rparr>"

definition manual_seed :: "generator \<Rightarrow> int \<Rightarrow> generator" where
  "manual_seed g s = g\<lparr>gen_seed := s, gen_offset := 0\<rparr>"

text \<open>The \<open>generator\<close> argument is one generator or a Python list of them.\<close>

datatype generator_arg = Single generator | GenList "generator list"

text \<open>
  \<open>randn_tensor\<close> belongs to diffusers. It is a parameter of the model: given the shape,
  the generator argument, the device and the element type it returns the noise tensor
  (or fails) and the generator argument as the draw left it.
\<close>

type_synonym randn_fn =
  "int list \<Rightarrow> generator_arg \<Rightarrow> device \<Rightarrow> dtype \<Rightarrow> tensor option \<times> generator_arg"

section \<open>The pipeline handle\<close>

record pipe =
  in_channels :: int          \<comment> \<open>\<open>pipe.unet.config.in_channels\<close>\<close>
  vae_scale_factor :: int     \<comment> \<open>\<open>pipe.vae_scale_factor\<close>\<close>
  init_noise_sigma :: real    \<comment> \<open>\<open>pipe.scheduler.init_noise_sigma\<close>\<close>
  scaling_factor :: real      \<comment> \<open>\<open>pipe.vae.config.scaling_factor\<close>\<close>

section \<open>\<open>prepare_latents\<close>\<close>

text \<open>
  \<open>isinstance(generator, list) and len(generator) != batch_size\<close>
\<close>

fun generator_list_mismatch :: "generator_arg \<Rightarrow> int \<Rightarrow> bool" where
  "generator_list_mismatch (Single g) batch_size = False"
| "generator_list_mismatch (GenList gs) batch_size = (int (length gs) \<noteq> batch_size)"

text \<open>
  The result is paired with the generator argument as the call leaves it, since drawing
  noise advances the generator in place.
\<close>

definition prepare_latents ::
  "randn_fn \<Rightarrow> pipe \<Rightarrow> int \<Rightarrow> int \<Rightarrow> int \<Rightarrow> dtype \<Rightarrow> device \<Rightarrow> generator_arg \<Rightarrow>
     tensor option \<Rightarrow> (error + tensor) \<times> generator_arg" where
  "prepare_latents randn_tensor p batch_size height width dt dev gen latents =
     (if vae_scale_factor p = 0 then (Inl ZeroDivisionError, gen)
      else
        let shp = [batch_size, in_channels p,
                   height div vae_scale_factor p, width div vae_scale_factor p]
        in if generator_list_mismatch gen batch_size then (Inl ShapeMismatch, gen)
           else
             (case (case latents of
                      None \<Rightarrow> randn_tensor shp gen dev dt
                    | Some l \<Rightarrow> (Some (tensor_to_device l dev), gen)) of
                (None, gen') \<Rightarrow> (Inl ExternalFailure, gen')
              | (Some l, gen') \<Rightarrow> (Inr (tensor_mul l (init_noise_sigma p)), gen')))"


section \<open>Python numbers and ambient randomness\<close>

text \<open>\<open>int(x)\<close> of a float truncates towards zero.\<close>

definition py_int :: "real \<Rightarrow> int" where
  "py_int x = (if 0 \<le> x then \<lfloor>x\<rfloor> else \<lceil>x\<rceil>)"

text \<open>
  The state of Python's global \<open>random\<close> module: the sequence of numbers it is going to
  yield and how many of them have been taken. \<open>random.randint(a, b)\<close> takes the next one
  and maps it into the closed range from \<open>a\<close> to \<open>b\<close>.
\<close>

record py_random =
  draws :: "nat \<Rightarrow> nat"
  drawn :: nat

definition randint :: "int \<Rightarrow> int \<Rightarrow> py_random \<Rightarrow> int \<times> py_random" where
  "randint a b r = (a + int (draws r (drawn r)) mod (b - a + 1), r\<lparr>drawn := drawn r + 1\<rparr>)"

section \<open>The seed of a run\<close>

text \<open>
  \<open>DiffusersGenerator.run\<close>, source lines 773 to 776:
  \<^verbatim>\<open>if not seed: seed = random.randint(0, 999999999999)\<close>
  and then \<open>generator = torch.Generator(device); generator.manual_seed(seed)\<close>.
  Python's \<open>not seed\<close> holds for \<open>None\<close> and for the integer 0.
\<close>

fun not_seed :: "int option \<Rightarrow> bool" where
  "not_seed None = True"
| "not_seed (Some s) = (s = 0)"

definition DiffusersGenerator_seed :: "int option \<Rightarrow> py_random \<Rightarrow> int \<times> py_random" where
  "DiffusersGenerator_seed seed rnd =
     (if not_seed seed then randint 0 999999999999 rnd else (the seed, rnd))"

definition DiffusersGenerator_generator ::
  "device \<Rightarrow> int option \<Rightarrow> py_random \<Rightarrow> generator \<times> py_random" where
  "DiffusersGenerator_generator dev seed rnd =
     (let (seed', rnd') = DiffusersGenerator_seed seed rnd
      in (manual_seed (Generator dev) seed', rnd'))"

text \<open>
  \<open>DiffusersPrepareLatents.run\<close>, source lines 476 to 491, tests \<open>seed is None\<close> instead.
\<close>

definition DiffusersPrepareLatents_seed :: "int option \<Rightarrow> py_random \<Rightarrow> int \<times> py_random" where
  "DiffusersPrepareLatents_seed seed rnd =
     (case seed of None \<Rightarrow> randint 0 999999999 rnd | Some s \<Rightarrow> (s, rnd))"

definition DiffusersPrepareLatents_run ::
  "randn_fn \<Rightarrow> device \<Rightarrow> dtype \<Rightarrow> pipe \<Rightarrow> int \<Rightarrow> int \<Rightarrow> int \<Rightarrow> tensor option \<Rightarrow> int option \<Rightarrow>
     py_random \<Rightarrow> ((error + tensor) \<times> generator_arg) \<times> py_random" where
  \<comment> \<open>the first three arguments: \<open>randn_tensor\<close>, \<open>get_torch_device()\<close> and \<open>VAE_DTYPE\<close>\<close>
  "DiffusersPrepareLatents_run randn_tensor torch_device VAE_DTYPE p batch_size height width
       latents seed rnd =
     (let (seed', rnd') = DiffusersPrepareLatents_seed seed rnd;
          gen = manual_seed (Generator torch_device) seed'
      in (prepare_latents randn_tensor p batch_size height width VAE_DTYPE torch_device
            (Single gen) latents, rnd'))"

section \<open>The control-unit stack\<close>

text \<open>
  A slot of \<open>DiffusersControlNetUnitStack.run\<close> holds \<open>None\<close> or a tuple of units. Python's
  truth test of a slot fails for \<open>None\<close> and for the empty tuple.
\<close>

fun truthy :: "'u list option \<Rightarrow> bool" where
  "truthy None = False"
| "truthy (Some us) = (us \<noteq> [])"

definition DiffusersControlNetUnitStack_run ::
  "'u list option \<Rightarrow> 'u list option \<Rightarrow> 'u list option \<Rightarrow> 'u list" where
  "DiffusersControlNetUnitStack_run controlnet_unit_1 controlnet_unit_2 controlnet_unit_3 =
     (let stack = [];
          stack = (if truthy controlnet_unit_1 then stack @ the controlnet_unit_1 else stack);
          stack = (if truthy controlnet_unit_2 then stack @ the controlnet_unit_2 else stack);
          stack = (if truthy controlnet_unit_3 then stack @ the controlnet_unit_3 else stack)
      in stack)"

text \<open>
  The specification's \<open>buildStack\<close>, in its own words: the concatenation of the slots in
  argument order, skipping the empty ones.
\<close>

definition buildStack :: "'u list option list \<Rightarrow> 'u list" where
  "buildStack slots = concat (map (\<lambda>slot. case slot of None \<Rightarrow> [] | Some us \<Rightarrow> us) slots)"

section \<open>The progress bar\<close>

text \<open>\<open>comfy.utils.ProgressBar(total)\<close>: the expected total and the count so far.\<close>

record ProgressBar =
  pb_total :: int
  pb_current :: int

definition ProgressBar_init :: "int \<Rightarrow> ProgressBar" where
  "ProgressBar_init n = \<lparr>pb_total = n, pb_current = 0\<rparr>"


section \<open>PIL images\<close>

text \<open>
  An image of PIL: its size, its mode and the bands of the pixel at each coordinate
  (\<open>x\<close> to the right, \<open>y\<close> downwards). Only the coordinates inside the size are
  meaningful. The modes are those an 8-bit array can be turned into.
\<close>

datatype mode = L | LA | RGB | RGBA

type_synonym pixel = "nat list"

record pil_image =
  im_width :: int
  im_height :: int
  im_mode :: mode
  im_px :: "int \<Rightarrow> int \<Rightarrow> pixel"

text \<open>What PIL's \<open>convert("RGBA")\<close> does to one pixel of each mode.\<close>

fun convert_rgba :: "mode \<Rightarrow> pixel \<Rightarrow> pixel" where
  "convert_rgba L [l] = [l, l, l, 255]"
| "convert_rgba LA [l, a] = [l, l, l, a]"
| "convert_rgba RGB [r, g, b] = [r, g, b, 255]"
| "convert_rgba m p = p"

text \<open>\<open>Image.new(mode, size, color)\<close>; PIL refuses a negative size.\<close>

definition Image_new :: "mode \<Rightarrow> int \<times> int \<Rightarrow> pixel \<Rightarrow> error + pil_image" where
  "Image_new m sz color =
     (if fst sz < 0 \<or> snd sz < 0 then Inl ExternalFailure
      else Inr \<lparr>im_width = fst sz, im_height = snd sz, im_mode = m,
                im_px = (\<lambda>x y. color)\<rparr>)"

text \<open>
  \<open>image.resize(size, Image.Resampling.LANCZOS)\<close>. PIL returns a copy when the size is
  the image's own, refuses a size with a side below 1, and otherwise resamples. The
  resampling filter is a parameter: it gives the pixels of the resized image.
\<close>

type_synonym resample_fn = "pil_image \<Rightarrow> int \<times> int \<Rightarrow> int \<Rightarrow> int \<Rightarrow> pixel"

definition Image_resize :: "resample_fn \<Rightarrow> pil_image \<Rightarrow> int \<times> int \<Rightarrow> error + pil_image" where
  "Image_resize lanczos im sz =
     (if (im_width im, im_height im) = sz then Inr im
      else if fst sz < 1 \<or> snd sz < 1 then Inl ExternalFailure
      else Inr \<lparr>im_width = fst sz, im_height = snd sz, im_mode = im_mode im,
                im_px = lanczos im sz\<rparr>)"

text \<open>
  \<open>background.paste(image, position)\<close> on an RGBA background: with no mask, the pixels
  of the box that starts at \<open>position\<close> are replaced by the pasted image's, converted to
  RGBA; the rest of the background is kept.
\<close>

definition Image_paste :: "pil_image \<Rightarrow> pil_image \<Rightarrow> int \<times> int \<Rightarrow> pil_image" where
  "Image_paste background im position =
     background\<lparr>im_px := (\<lambda>x y.
        if fst position \<le> x \<and> x < fst position + im_width im
           \<and> snd position \<le> y \<and> y < snd position + im_height im
        then convert_rgba (im_mode im) (im_px im (x - fst position) (y - snd position))
        else im_px background x y)\<rparr>"

section \<open>\<open>resize_with_padding\<close>\<close>

definition resize_with_padding ::
  "resample_fn \<Rightarrow> pil_image \<Rightarrow> int \<times> int \<Rightarrow> error + pil_image" where
  "resize_with_padding lanczos img target_size =
     (if im_width img = 0 \<or> im_height img = 0 then Inl ZeroDivisionError
      else
        let width_ratio = real_of_int (fst target_size) / real_of_int (im_width img);
            height_ratio = real_of_int (snd target_size) / real_of_int (im_height img);
            ratio = min width_ratio height_ratio;
            new_width = py_int (real_of_int (im_width img) * ratio);
            new_height = py_int (real_of_int (im_height img) * ratio)
        in case Image_resize lanczos img (new_width, new_height) of
             Inl e \<Rightarrow> Inl e
           | Inr resized \<Rightarrow>
               (case Image_new RGBA target_size [0, 0, 0, 0] of
                  Inl e \<Rightarrow> Inl e
                | Inr background \<Rightarrow>
                    let position = ((fst target_size - new_width) div 2,
                                    (snd target_size - new_height) div 2)
                    in Inr (Image_paste background resized position)))"

section \<open>From an image tensor to a PIL image\<close>

text \<open>
  \<open>t.squeeze(0)\<close> drops the first dimension when its size is 1 and returns the tensor
  as it is otherwise.
\<close>

definition tensor_squeeze0 :: "tensor \<Rightarrow> tensor" where
  "tensor_squeeze0 t =
     (case shape t of
        [] \<Rightarrow> t
      | n # rest \<Rightarrow>
          if n = 1 then t\<lparr>shape := rest, elem := (\<lambda>idx. elem t (0 # idx))\<rparr> else t)"

text \<open>
  \<open>t.to(dtype=torch.uint8)\<close> of a floating-point tensor truncates each element. What it
  does outside the range of a byte is not specified by torch; here it wraps, and the
  non-finite values give 0.
\<close>

fun to_uint8 :: "fval \<Rightarrow> nat" where
  "to_uint8 (Fin r) = nat (py_int r mod 256)"
| "to_uint8 v = 0"

definition tensor_to_uint8 :: "tensor \<Rightarrow> tensor" where
  "tensor_to_uint8 t = t\<lparr>dtype := UInt8, elem := (\<lambda>idx. Fin (real (to_uint8 (elem t idx))))\<rparr>"

text \<open>
  \<open>Image.fromarray(t.numpy())\<close> for an 8-bit tensor. \<open>numpy()\<close> needs a tensor on the
  CPU. \<open>fromarray\<close> looks the trailing dimensions up in its table of array types: a
  two-dimensional array is a greyscale image, a three-dimensional one with 2, 3 or 4
  channels an LA, RGB or RGBA image, a one-dimensional one a greyscale column; every other
  shape is refused.
\<close>

definition fromarray_numpy :: "tensor \<Rightarrow> error + pil_image" where
  "fromarray_numpy t =
     (if device t \<noteq> CPU then Inl ExternalFailure
      else case shape t of
        [n] \<Rightarrow> Inr \<lparr>im_width = 1, im_height = int n, im_mode = L,
                    im_px = (\<lambda>x y. [to_uint8 (elem t [nat y])])\<rparr>
      | [h, w] \<Rightarrow> Inr \<lparr>im_width = int w, im_height = int h, im_mode = L,
                       im_px = (\<lambda>x y. [to_uint8 (elem t [nat y, nat x])])\<rparr>
      | [h, w, c] \<Rightarrow>
          if c = 2 \<or> c = 3 \<or> c = 4 then
            Inr \<lparr>im_width = int w, im_height = int h,
                 im_mode = (if c = 2 then LA else if c = 3 then RGB else RGBA),
                 im_px = (\<lambda>x y. map (\<lambda>k. to_uint8 (elem t [nat y, nat x, k])) [0..<c])\<rparr>
          else Inl ExternalFailure
      | _ \<Rightarrow> Inl ExternalFailure)"

definition comfy_image_to_pil :: "tensor \<Rightarrow> error + pil_image" where
  "comfy_image_to_pil img =
     (let img = tensor_squeeze0 img;
          img = tensor_mul img 255;
          img = tensor_to_uint8 img
      in fromarray_numpy img)"

section \<open>Control units\<close>

text \<open>
  Modelled from the spec: class \<open>ControlNetUnit\<close> of the repository's \<open>pipelines\<close> module,
  which is not among the sources. The specification's ControlUnit and the constructor
  call of source lines 613 to 619 give its fields: the control-network handle, the
  conditioning image, the influence scale and the activation window.
\<close>

record 'c ControlNetUnit =
  cu_controlnet :: 'c
  cu_image :: pil_image
  cu_scale :: real
  cu_start :: real
  cu_end :: real

definition DiffusersControlNetUnit_run ::
  "'c \<Rightarrow> tensor \<Rightarrow> real \<Rightarrow> real \<Rightarrow> real \<Rightarrow> error + 'c ControlNetUnit list" where
  \<comment> \<open>the result is the one-element tuple holding the new unit\<close>
  "DiffusersControlNetUnit_run controlnet img scale start end' =
     (case comfy_image_to_pil img of
        Inl e \<Rightarrow> Inl e
      | Inr im \<Rightarrow> Inr [\<lparr>cu_controlnet = controlnet, cu_image = im, cu_scale = scale,
                        cu_start = start, cu_end = end'\<rparr>])"

text \<open>
  Unit objects live in a store, addressed by reference, so that a change made through one
  reference is seen through every other. The loop of source lines 802 to 805 replaces the
  image of each unit of the tuple, in order; an exception leaves the units before it
  changed and the others as they were.
\<close>

type_synonym 'c store = "nat \<Rightarrow> 'c ControlNetUnit"

fun resize_units ::
  "resample_fn \<Rightarrow> int \<times> int \<Rightarrow> nat list \<Rightarrow> 'c store \<Rightarrow> error option \<times> 'c store" where
  "resize_units lanczos target_image_shape [] s = (None, s)"
| "resize_units lanczos target_image_shape (unit # units) s =
     (case resize_with_padding lanczos (cu_image (s unit)) target_image_shape of
        Inl e \<Rightarrow> (Some e, s)
      | Inr unit_img \<Rightarrow>
          resize_units lanczos target_image_shape units
            (s(unit := (s unit)\<lparr>cu_image := unit_img\<rparr>)))"


section \<open>Decoding latents\<close>

text \<open>
  The image processor of diffusers: \<open>denormalize\<close> is \<open>(images / 2 + 0.5).clamp(0, 1)\<close>,
  and \<open>postprocess(image, output_type="pt", do_denormalize=flags)\<close> stacks the samples of
  the batch, each denormalized when its flag is set. It needs one flag for each sample,
  and \<open>torch.stack\<close> needs at least one sample.
\<close>

fun fadd :: "fval \<Rightarrow> real \<Rightarrow> fval" where
  "fadd (Fin a) s = Fin (a + s)"
| "fadd v s = v"

fun clamp01 :: "fval \<Rightarrow> fval" where
  "clamp01 (Fin a) = Fin (max 0 (min 1 a))"
| "clamp01 PInf = Fin 1"
| "clamp01 NInf = Fin 0"
| "clamp01 NaN = NaN"

definition denormalize :: "fval \<Rightarrow> fval" where
  "denormalize v = clamp01 (fadd (fdiv v 2) (1 / 2))"

definition postprocess :: "tensor \<Rightarrow> bool list \<Rightarrow> error + tensor" where
  "postprocess img do_denormalize =
     (case shape img of
        [] \<Rightarrow> Inl IndexError
      | n # rest \<Rightarrow>
          if length do_denormalize < n then Inl IndexError
          else if n = 0 then Inl ExternalFailure
          else Inr (img\<lparr>elem := (\<lambda>idx.
                 if do_denormalize ! hd idx then denormalize (elem img idx)
                 else elem img idx)\<rparr>))"

text \<open>
  \<open>torch.nan_to_num(t)\<close> with its default arguments: NaN becomes 0 and the infinities become
  the largest and the smallest finite value of the tensor's element type.
\<close>

fun finfo_max :: "dtype \<Rightarrow> real" where
  "finfo_max Float16 = 65504"
| "finfo_max BFloat16 = (2 - 1 / 2 ^ 7) * 2 ^ 127"
| "finfo_max Float32 = (2 - 1 / 2 ^ 23) * 2 ^ 127"
| "finfo_max Float64 = (2 - 1 / 2 ^ 52) * 2 ^ 1023"
| "finfo_max UInt8 = 255"

fun nan_to_num :: "dtype \<Rightarrow> fval \<Rightarrow> fval" where
  "nan_to_num dt (Fin a) = Fin a"
| "nan_to_num dt NaN = Fin 0"
| "nan_to_num dt PInf = Fin (finfo_max dt)"
| "nan_to_num dt NInf = Fin (- finfo_max dt)"

definition tensor_nan_to_num :: "tensor \<Rightarrow> tensor" where
  "tensor_nan_to_num t = t\<lparr>elem := (\<lambda>idx. nan_to_num (dtype t) (elem t idx))\<rparr>"

text \<open>
  \<open>t.permute(0, 2, 3, 1)\<close>: dimension \<open>k\<close> of the result is dimension \<open>(0, 2, 3, 1)[k]\<close> of
  \<open>t\<close>, so the element at \<open>[b, h, w, c]\<close> is the element of \<open>t\<close> at \<open>[b, c, h, w]\<close>. A tensor
  that does not have four dimensions is refused.
\<close>

fun permute_0231_index :: "nat list \<Rightarrow> nat list" where
  "permute_0231_index [b, h, w, c] = [b, c, h, w]"
| "permute_0231_index idx = idx"

definition tensor_permute_0231 :: "tensor \<Rightarrow> error + tensor" where
  "tensor_permute_0231 t =
     (case shape t of
        [b, c, h, w] \<Rightarrow>
          Inr (t\<lparr>shape := [b, h, w, c], elem := (\<lambda>idx. elem t (permute_0231_index idx))\<rparr>)
      | _ \<Rightarrow> Inl ExternalFailure)"

text \<open>
  \<open>latents_to_img_tensor\<close>. The decoder \<open>pipeline.vae.decode\<close> is a parameter, as is the
  element type that \<open>comfy.model_management.vae_dtype()\<close> returns; the \<open>print\<close> of source
  line 79 is left out.
\<close>

definition latents_to_img_tensor ::
  "(tensor \<Rightarrow> tensor option) \<Rightarrow> dtype \<Rightarrow> pipe \<Rightarrow> tensor \<Rightarrow> error + tensor" where
  "latents_to_img_tensor vae_decode vae_dtype p latents =
     (let scaled_latents = tensor_div latents (scaling_factor p);
          scaled_latents = tensor_to_dtype scaled_latents vae_dtype
      in case vae_decode scaled_latents of
           None \<Rightarrow> Inl ExternalFailure
         | Some dec_tensor \<Rightarrow>
             (case shape scaled_latents of
                [] \<Rightarrow> Inl IndexError
              | n # rest \<Rightarrow>
                  (case postprocess dec_tensor (replicate n True) of
                     Inl e \<Rightarrow> Inl e
                   | Inr dec_images \<Rightarrow>
                       let res = tensor_to_dtype (tensor_nan_to_num dec_images) Float32
                       in tensor_permute_0231 res)))"


section \<open>\<open>DiffusersGenerator.run\<close> up to the call of the pipeline\<close>

text \<open>
  What the run takes from outside this module: \<open>randn_tensor\<close>, the decoder, the
  resampling filter, and what \<open>comfy.model_management\<close> answers for the device and the
  two element types.
\<close>

record externals =
  x_randn_tensor :: randn_fn
  x_vae_decode :: "tensor \<Rightarrow> tensor option"
  x_lanczos :: resample_fn
  x_torch_device :: device
  x_VAE_DTYPE :: dtype
  x_vae_dtype :: dtype

text \<open>The state a run can change: Python's global random state and the unit objects.\<close>

record 'c world =
  py_rand :: py_random
  units :: "'c store"

text \<open>
  The arguments with which the run calls \<open>pipeline(...)\<close>, inside which the denoising loop
  runs; \<open>pc_pbar\<close> is the progress bar that the callback passed along updates.
\<close>

record pipeline_call =
  pc_image :: tensor
  pc_generator :: generator_arg
  pc_width :: nat
  pc_height :: nat
  pc_num_inference_steps :: int
  pc_strength :: real
  pc_controlnet_units :: "nat list option"
  pc_pbar :: ProgressBar

text \<open>
  Source lines 768 to 806 in their order: the progress bar, the seed and the generator,
  the image batch (decoded from fresh latents when none is given), the canvas size read
  off the image batch, and the resizing of the control units. Each exception ends the run
  with the state as it is at that point. The repetition of the prompt embeddings (lines
  793 and 794) and the wrapping of the units in \<open>ControlNetUnits\<close> are left out.
\<close>

definition DiffusersGenerator_run ::
  "externals \<Rightarrow> pipe \<Rightarrow> int \<Rightarrow> int \<Rightarrow> int \<Rightarrow> tensor option \<Rightarrow> int \<Rightarrow> real \<Rightarrow>
     nat list option \<Rightarrow> int option \<Rightarrow> 'c world \<Rightarrow> (error + pipeline_call) \<times> 'c world" where
  "DiffusersGenerator_run x p width height batch_size images num_inference_steps strength
       controlnet_units seed w =
     (let pbar = ProgressBar_init (py_int (real_of_int num_inference_steps * strength));
          dev = x_torch_device x;
          (generator, rnd) = DiffusersGenerator_generator dev seed (py_rand w);
          w = w\<lparr>py_rand := rnd\<rparr>;
          (images_result, gen) =
            (case images of
               None \<Rightarrow>
                 (case prepare_latents (x_randn_tensor x) p batch_size height width
                         (x_VAE_DTYPE x) dev (Single generator) None of
                    (Inl e, g) \<Rightarrow> (Inl e, g)
                  | (Inr latents, g) \<Rightarrow>
                      (latents_to_img_tensor (x_vae_decode x) (x_vae_dtype x) p latents, g))
             | Some imgs \<Rightarrow> (Inr imgs, Single generator))
      in case images_result of
           Inl e \<Rightarrow> (Inl e, w)
         | Inr imgs \<Rightarrow>
             if length (shape imgs) < 3 then (Inl IndexError, w)
             else
               let width = shape imgs ! 2;
                   height = shape imgs ! 1;
                   call = \<lparr>pc_image = imgs, pc_generator = gen, pc_width = width,
                           pc_height = height, pc_num_inference_steps = num_inference_steps,
                           pc_strength = strength, pc_controlnet_units = controlnet_units,
                           pc_pbar = pbar\<rparr>
               in case controlnet_units of
                    None \<Rightarrow> (Inr call, w)
                  | Some us \<Rightarrow>
                      (case resize_units (x_lanczos x) (int width, int height) us (units w) of
                         (Some e, s) \<Rightarrow> (Inl e, w\<lparr>units := s\<rparr>)
                       | (None, s) \<Rightarrow> (Inr call, w\<lparr>units := s\<rparr>)))"


text \<open>Inputs on which the model is evaluated.\<close>

definition example_pipe :: pipe where
  "example_pipe =
     \<lparr>in_channels = 4, vae_scale_factor = 8, init_noise_sigma = 2, scaling_factor = 1 / 4\<rparr>"

definition example_latent :: tensor where
  "example_latent =
     \<lparr>shape = [1, 4, 64, 64], dtype = Float16, device = CPU, elem = (\<lambda>idx. Fin 1)\<rparr>"

definition failing_randn :: randn_fn where
  "failing_randn shp gen dev dt = (None, gen)"

text \<open>
  A stand-in for \<open>randn_tensor\<close> whose noise is the seed of the generator it is given,
  and a global random state that yields one number again and again.
\<close>

definition seed_randn :: randn_fn where
  "seed_randn shp gen dev dt =
     (case gen of
        Single g \<Rightarrow>
          (Some \<lparr>shape = map nat shp, dtype = dt, device = dev,
                  elem = (\<lambda>idx. Fin (real_of_int (gen_seed g)))\<rparr>,
           Single (g\<lparr>gen_offset := gen_offset g + 1\<rparr>))
      | GenList gs \<Rightarrow> (None, gen))"

definition random_yielding :: "nat \<Rightarrow> py_random" where
  "random_yielding n = \<lparr>draws = (\<lambda>k. n), drawn = 0\<rparr>"

text \<open>
  Stand-ins for the decoder (three channels, each latent element repeated over an 8 by 8
  block) and for the resampling filter (nearest neighbour), the externals built from them,
  and a state of the world with no unit in use.
\<close>

definition block_decode :: "tensor \<Rightarrow> tensor option" where
  "block_decode t =
     (case shape t of
        [b, c, h, w] \<Rightarrow>
          Some (t\<lparr>shape := [b, 3, 8 * h, 8 * w],
                  elem := (\<lambda>idx. case idx of
                             [i, k, y, x] \<Rightarrow> elem t [i, k, y div 8, x div 8]
                           | _ \<Rightarrow> NaN)\<rparr>)
      | _ \<Rightarrow> None)"

definition nearest :: resample_fn where
  "nearest im sz x y = im_px im (x * im_width im div fst sz) (y * im_height im div snd sz)"

definition example_externals :: externals where
  "example_externals =
     \<lparr>x_randn_tensor = seed_randn, x_vae_decode = block_decode, x_lanczos = nearest,
      x_torch_device = CPU, x_VAE_DTYPE = Float32, x_vae_dtype = Float32\<rparr>"

definition grey_image :: "int \<Rightarrow> int \<Rightarrow> pil_image" where
  "grey_image w h = \<lparr>im_width = w, im_height = h, im_mode = RGB, im_px = (\<lambda>x y. [128, 128, 128])\<rparr>"

definition example_unit :: "nat ControlNetUnit" where
  "example_unit =
     \<lparr>cu_controlnet = 0, cu_image = grey_image 256 128, cu_scale = 1, cu_start = 0, cu_end = 1\<rparr>"

definition example_world :: "nat world" where
  "example_world = \<lparr>py_rand = random_yielding 5, units = (\<lambda>r. example_unit)\<rparr>"

text \<open>Image batches of two images and of one image, every element 0.5.\<close>

definition two_images :: tensor where
  "two_images =
     \<lparr>shape = [2, 64, 64, 3], dtype = Float32, device = CPU, elem = (\<lambda>idx. Fin (1 / 2))\<rparr>"

definition one_image :: tensor where
  "one_image =
     \<lparr>shape = [1, 64, 64, 3], dtype = Float32, device = CPU, elem = (\<lambda>idx. Fin (1 / 2))\<rparr>"

text \<open>A latent with one NaN among elements that are all 1/8.\<close>

definition nan_latent :: tensor where
  "nan_latent =
     \<lparr>shape = [1, 4, 64, 64], dtype = Float32, device = CPU,
      elem = (\<lambda>idx. if idx = [0, 0, 0, 0] then NaN else Fin (1 / 8))\<rparr>"


section \<open>Properties of \<open>prepare_latents\<close>\<close>

lemma prepare_latents_supplied:
  assumes "vae_scale_factor p \<noteq> 0" and "\<not> generator_list_mismatch gen batch_size"
  shows "prepare_latents rn p batch_size height width dt dev gen (Some l) =
           (Inr (tensor_mul (tensor_to_device l dev) (init_noise_sigma p)), gen)"
  using assms by (simp add: prepare_latents_def)

text \<open>
  Claim C1, as stated, fails: a supplied latent whose elements are all 1, prepared on a
  pipeline whose scheduler has \<open>init_noise_sigma = 2\<close>, comes back with elements 2, not
  as the supplied latent moved to the device.
\<close>

theorem prepare_latents_supplied_counterexample:
  "fst (prepare_latents failing_randn example_pipe 1 512 512 Float32 CPU
          (Single (Generator CPU)) (Some example_latent))
     \<noteq> Inr (tensor_to_dtype (tensor_to_device example_latent CPU) Float32)
   \<and> fst (prepare_latents failing_randn example_pipe 1 512 512 Float32 CPU
          (Single (Generator CPU)) (Some example_latent))
     \<noteq> Inr (tensor_to_device example_latent CPU)
   \<and> elem (projr (fst (prepare_latents failing_randn example_pipe 1 512 512 Float32 CPU
          (Single (Generator CPU)) (Some example_latent)))) [0, 0, 0, 0] = Fin 2
   \<and> elem example_latent [0, 0, 0, 0] = Fin 1"
proof -
  have r: "prepare_latents failing_randn example_pipe 1 512 512 Float32 CPU
             (Single (Generator CPU)) (Some example_latent)
           = (Inr (tensor_mul (tensor_to_device example_latent CPU) 2), Single (Generator CPU))"
    by (simp add: prepare_latents_def example_pipe_def)
  have e: "elem (tensor_mul (tensor_to_device example_latent CPU) 2) [0, 0, 0, 0] = Fin 2"
    by (simp add: tensor_mul_def tensor_to_device_def example_latent_def)
  have e1: "elem (tensor_to_dtype (tensor_to_device example_latent CPU) Float32) [0, 0, 0, 0]
              = Fin 1"
    by (simp add: tensor_to_dtype_def tensor_to_device_def example_latent_def)
  have e2: "elem (tensor_to_device example_latent CPU) [0, 0, 0, 0] = Fin 1"
    by (simp add: tensor_to_device_def example_latent_def)
  have n1: "tensor_mul (tensor_to_device example_latent CPU) 2
              \<noteq> tensor_to_dtype (tensor_to_device example_latent CPU) Float32"
    using e e1 by auto
  have n2: "tensor_mul (tensor_to_device example_latent CPU) 2
              \<noteq> tensor_to_device example_latent CPU"
    using e e2 by auto
  have e0: "elem example_latent [0, 0, 0, 0] = Fin 1"
    by (simp add: example_latent_def)
  show ?thesis
    unfolding r using n1 n2 e e0 by simp
qed

text \<open>
  Claim C1, amended: a supplied latent is moved to the target device and every element is
  multiplied by the scheduler's \<open>init_noise_sigma\<close>, as fresh noise is. Its shape and
  element type are kept (no precision cast is made) and the generator is left as it was.
\<close>

theorem prepare_latents_supplied_scaled:
  assumes "vae_scale_factor p \<noteq> 0" and "\<not> generator_list_mismatch gen batch_size"
  shows "\<exists>t. prepare_latents rn p batch_size height width dt dev gen (Some l) = (Inr t, gen)
           \<and> shape t = shape l \<and> dtype t = dtype l \<and> device t = dev
           \<and> (\<forall>idx. elem t idx = fmul (elem l idx) (init_noise_sigma p))"
  using assms by (simp add: prepare_latents_def tensor_mul_def tensor_to_device_def)

theorem prepare_latents_supplied_scaled_witness:
  "vae_scale_factor example_pipe \<noteq> 0
   \<and> \<not> generator_list_mismatch (Single (Generator CPU)) 1
   \<and> (\<exists>t. prepare_latents failing_randn example_pipe 1 512 512 Float32 (CUDA 0)
              (Single (Generator CPU)) (Some example_latent) = (Inr t, Single (Generator CPU))
          \<and> shape t = [1, 4, 64, 64] \<and> dtype t = Float16 \<and> device t = CUDA 0
          \<and> (\<forall>idx. elem t idx = Fin 2))"
proof -
  have h1: "vae_scale_factor example_pipe \<noteq> 0" by (simp add: example_pipe_def)
  have h2: "\<not> generator_list_mismatch (Single (Generator CPU)) 1" by simp
  show ?thesis
    using prepare_latents_supplied_scaled [OF h1 h2, of failing_randn 512 512 Float32
        "CUDA 0" example_latent] h1 h2
    by (simp add: example_pipe_def example_latent_def)
qed

text \<open>
  Claim C3: on a pipeline with a non-zero \<open>vae_scale_factor\<close>, \<open>prepare_latents\<close> raises
  its shape error exactly when the generator argument is a list whose length differs from
  \<open>batch_size\<close>; it then returns before \<open>randn_tensor\<close> is called, whatever that function
  is, leaving the generators untouched and producing no latent.
\<close>

theorem prepare_latents_shape_mismatch:
  assumes "vae_scale_factor p \<noteq> 0"
  shows "(fst (prepare_latents rn p batch_size height width dt dev gen latents)
            = Inl ShapeMismatch)
           = (\<exists>gs. gen = GenList gs \<and> int (length gs) \<noteq> batch_size)
         \<and> ((\<exists>gs. gen = GenList gs \<and> int (length gs) \<noteq> batch_size) \<longrightarrow>
              (\<forall>rn'. prepare_latents rn' p batch_size height width dt dev gen latents
                       = (Inl ShapeMismatch, gen)))"
proof -
  have m: "generator_list_mismatch gen batch_size
             = (\<exists>gs. gen = GenList gs \<and> int (length gs) \<noteq> batch_size)"
    by (cases gen) simp_all
  have a: "generator_list_mismatch gen batch_size \<Longrightarrow>
             prepare_latents rn' p batch_size height width dt dev gen latents
               = (Inl ShapeMismatch, gen)" for rn'
    using assms by (simp add: prepare_latents_def)
  have b: "\<not> generator_list_mismatch gen batch_size \<Longrightarrow>
             fst (prepare_latents rn p batch_size height width dt dev gen latents)
               \<noteq> Inl ShapeMismatch"
    using assms
    by (auto simp: prepare_latents_def Let_def split: option.splits prod.splits)
  show ?thesis
    using a b m by (cases "generator_list_mismatch gen batch_size") auto
qed

theorem prepare_latents_shape_mismatch_witness:
  "vae_scale_factor example_pipe \<noteq> 0
   \<and> prepare_latents failing_randn example_pipe 4 512 512 Float32 CPU
       (GenList [Generator CPU, Generator CPU]) None
     = (Inl ShapeMismatch, GenList [Generator CPU, Generator CPU])
   \<and> fst (prepare_latents failing_randn example_pipe 2 512 512 Float32 CPU
       (GenList [Generator CPU, Generator CPU]) None) \<noteq> Inl ShapeMismatch"
proof -
  have h: "vae_scale_factor example_pipe \<noteq> 0" by (simp add: example_pipe_def)
  have "\<exists>gs. GenList [Generator CPU, Generator CPU] = GenList gs \<and> int (length gs) \<noteq> 4"
    by simp
  moreover have
    "\<not> (\<exists>gs. GenList [Generator CPU, Generator CPU] = GenList gs \<and> int (length gs) \<noteq> 2)"
    by auto
  ultimately show ?thesis
    using h
      prepare_latents_shape_mismatch [OF h, of failing_randn 4 512 512 Float32 CPU
        "GenList [Generator CPU, Generator CPU]" None]
      prepare_latents_shape_mismatch [OF h, of failing_randn 2 512 512 Float32 CPU
        "GenList [Generator CPU, Generator CPU]" None]
    by blast
qed

section \<open>Properties of the control-unit stack\<close>

text \<open>
  Claim C8: whatever the three slots hold, \<open>DiffusersControlNetUnitStack.run\<close> returns what
  the specification's \<open>buildStack\<close> gives for them: the units of slot 1, then those of slot
  2, then those of slot 3, an empty slot contributing nothing.
\<close>

theorem stack_run_is_buildStack:
  "DiffusersControlNetUnitStack_run u1 u2 u3 = buildStack [u1, u2, u3]
   \<and> DiffusersControlNetUnitStack_run u1 u2 u3
       = (case u1 of None \<Rightarrow> [] | Some a \<Rightarrow> a) @ (case u2 of None \<Rightarrow> [] | Some b \<Rightarrow> b)
           @ (case u3 of None \<Rightarrow> [] | Some c \<Rightarrow> c)"
  by (cases u1; cases u2; cases u3)
     (simp_all add: DiffusersControlNetUnitStack_run_def buildStack_def)

section \<open>Properties of the seed\<close>

lemma DiffusersGenerator_seed_zero:
  "DiffusersGenerator_seed (Some 0) rnd = randint 0 999999999999 rnd"
  by (simp add: DiffusersGenerator_seed_def)

lemma DiffusersGenerator_generator_seeded:
  "\<not> not_seed seed \<Longrightarrow>
     DiffusersGenerator_generator dev seed rnd = (manual_seed (Generator dev) (the seed), rnd)"
  by (simp add: DiffusersGenerator_generator_def DiffusersGenerator_seed_def)

lemma run_seed_zero_generator:
  "\<exists>call w'. DiffusersGenerator_run example_externals example_pipe 512 512 1 None 30 1 None
       (Some 0) \<lparr>py_rand = random_yielding n, units = (\<lambda>r. example_unit)\<rparr> = (Inr call, w')
     \<and> pc_generator call
         = Single \<lparr>gen_device = CPU, gen_seed = int n mod 1000000000000, gen_offset = 1\<rparr>"
  by (simp add: DiffusersGenerator_run_def example_externals_def Let_def
      DiffusersGenerator_generator_def DiffusersGenerator_seed_def randint_def
      random_yielding_def manual_seed_def Generator_def
      prepare_latents_def example_pipe_def seed_randn_def
      latents_to_img_tensor_def tensor_div_def tensor_mul_def tensor_to_dtype_def
      block_decode_def postprocess_def tensor_nan_to_num_def tensor_permute_0231_def
      split: prod.splits)

text \<open>
  Claim C2 at seed 0, the least seed the node accepts and its default: the run replaces it
  by a draw from Python's global random state (5 in one state, 7 in another), so the
  latents prepared from the generator differ between two runs with the same arguments,
  and so does what the runs hand to the pipeline. \<open>DiffusersPrepareLatents.run\<close> keeps the
  seed 0.
\<close>

theorem DiffusersGenerator_seed_zero_not_reproducible:
  "fst (DiffusersGenerator_seed (Some 0) (random_yielding 5)) = 5
   \<and> fst (DiffusersGenerator_seed (Some 0) (random_yielding 7)) = 7
   \<and> fst (prepare_latents seed_randn example_pipe 1 512 512 Float32 CPU
        (Single (fst (DiffusersGenerator_generator CPU (Some 0) (random_yielding 5)))) None)
     \<noteq> fst (prepare_latents seed_randn example_pipe 1 512 512 Float32 CPU
        (Single (fst (DiffusersGenerator_generator CPU (Some 0) (random_yielding 7)))) None)
   \<and> fst (DiffusersGenerator_run example_externals example_pipe 512 512 1 None 30 1 None
        (Some 0) \<lparr>py_rand = random_yielding 5, units = (\<lambda>r. example_unit)\<rparr>)
     \<noteq> fst (DiffusersGenerator_run example_externals example_pipe 512 512 1 None 30 1 None
        (Some 0) \<lparr>py_rand = random_yielding 7, units = (\<lambda>r. example_unit)\<rparr>)
   \<and> fst (DiffusersPrepareLatents_seed (Some 0) (random_yielding 5)) = 0"
proof -
  have run: "fst (DiffusersGenerator_run example_externals example_pipe 512 512 1 None 30 1
        None (Some 0) \<lparr>py_rand = random_yielding 5, units = (\<lambda>r. example_unit)\<rparr>)
     \<noteq> fst (DiffusersGenerator_run example_externals example_pipe 512 512 1 None 30 1 None
        (Some 0) \<lparr>py_rand = random_yielding 7, units = (\<lambda>r. example_unit)\<rparr>)"
    using run_seed_zero_generator [of 5] run_seed_zero_generator [of 7] by auto
  have g5: "fst (DiffusersGenerator_generator CPU (Some 0) (random_yielding 5))
              = manual_seed (Generator CPU) 5"
    by (simp add: DiffusersGenerator_generator_def DiffusersGenerator_seed_def randint_def
          random_yielding_def)
  have g7: "fst (DiffusersGenerator_generator CPU (Some 0) (random_yielding 7))
              = manual_seed (Generator CPU) 7"
    by (simp add: DiffusersGenerator_generator_def DiffusersGenerator_seed_def randint_def
          random_yielding_def)
  have l: "fst (prepare_latents seed_randn example_pipe 1 512 512 Float32 CPU
                  (Single (manual_seed (Generator CPU) k)) None)
             = Inr \<lparr>shape = [1, 4, 64, 64], dtype = Float32, device = CPU,
                    elem = (\<lambda>idx. Fin (2 * real_of_int k))\<rparr>" for k
    by (simp add: prepare_latents_def example_pipe_def seed_randn_def manual_seed_def
          Generator_def tensor_mul_def mult.commute)
  have ne: "(\<lambda>idx::nat list. Fin 10) \<noteq> (\<lambda>idx. Fin 14)"
    by (auto dest: fun_cong)
  have rest: "fst (DiffusersGenerator_seed (Some 0) (random_yielding 5)) = 5
      \<and> fst (DiffusersGenerator_seed (Some 0) (random_yielding 7)) = 7
      \<and> fst (DiffusersPrepareLatents_seed (Some 0) (random_yielding 5)) = 0"
    by (simp add: DiffusersGenerator_seed_def DiffusersPrepareLatents_seed_def randint_def
          random_yielding_def)
  have lat: "fst (prepare_latents seed_randn example_pipe 1 512 512 Float32 CPU
        (Single (fst (DiffusersGenerator_generator CPU (Some 0) (random_yielding 5)))) None)
     \<noteq> fst (prepare_latents seed_randn example_pipe 1 512 512 Float32 CPU
        (Single (fst (DiffusersGenerator_generator CPU (Some 0) (random_yielding 7)))) None)"
    unfolding g5 g7 l using ne by simp
  show ?thesis
    using rest lat run by blast
qed

section \<open>Properties of the run\<close>

lemma py_int_nonneg: "0 \<le> x \<Longrightarrow> py_int x = \<lfloor>x\<rfloor>"
  by (simp add: py_int_def)

lemma run_success:
  assumes "DiffusersGenerator_run x p width height batch_size images num_inference_steps
             strength controlnet_units seed w = (Inr call, w')"
  shows "pc_pbar call = ProgressBar_init (py_int (real_of_int num_inference_steps * strength))"
    and "3 \<le> length (shape (pc_image call))"
    and "pc_width call = shape (pc_image call) ! 2"
    and "pc_height call = shape (pc_image call) ! 1"
    and "pc_controlnet_units call = controlnet_units"
    and "case controlnet_units of
           None \<Rightarrow> units w' = units w
         | Some us \<Rightarrow>
             resize_units (x_lanczos x) (int (pc_width call), int (pc_height call)) us (units w)
               = (None, units w')"
  using assms
  by (auto simp: DiffusersGenerator_run_def Let_def
      split: prod.splits option.splits sum.splits if_splits)

text \<open>
  Claim C4: for a step count of at least 1 and a strength that is not negative, the
  progress bar that the run hands to the pipeline, inside which the denoising loop runs,
  has been created with the total \<open>\<lfloor>steps \<times> strength\<rfloor>\<close> and has counted nothing yet. With 30
  steps and strength 0.5 the total is 15.
\<close>

theorem run_registers_progress_total:
  assumes "1 \<le> num_inference_steps" and "0 \<le> strength"
    and "DiffusersGenerator_run x p width height batch_size images num_inference_steps
           strength controlnet_units seed w = (Inr call, w')"
  shows "pb_total (pc_pbar call) = \<lfloor>real_of_int num_inference_steps * strength\<rfloor>
         \<and> pb_current (pc_pbar call) = 0"
proof -
  have "0 \<le> real_of_int num_inference_steps * strength"
    using assms(1,2) by simp
  then have "py_int (real_of_int num_inference_steps * strength)
               = \<lfloor>real_of_int num_inference_steps * strength\<rfloor>"
    by (rule py_int_nonneg)
  then show ?thesis
    using run_success(1) [OF assms(3)] by (simp add: ProgressBar_init_def)
qed

lemma example_run:
  "\<exists>call w'. DiffusersGenerator_run example_externals example_pipe 512 512 1 None 30 (1 / 2)
       None (Some 47) example_world = (Inr call, w')"
  apply (simp add: DiffusersGenerator_run_def example_externals_def Let_def
      DiffusersGenerator_generator_def DiffusersGenerator_seed_def
      prepare_latents_def example_pipe_def seed_randn_def
      latents_to_img_tensor_def tensor_div_def tensor_mul_def tensor_to_dtype_def
      block_decode_def postprocess_def tensor_nan_to_num_def tensor_permute_0231_def
      split: prod.splits)
  done


theorem run_registers_progress_total_witness:
  "(1::int) \<le> 30 \<and> (0::real) \<le> 1 / 2
   \<and> (\<exists>call w'. DiffusersGenerator_run example_externals example_pipe 512 512 1 None 30 (1 / 2)
          None (Some 47) example_world = (Inr call, w')
        \<and> pb_total (pc_pbar call) = 15 \<and> pb_current (pc_pbar call) = 0)"
proof -
  obtain call w' where r: "DiffusersGenerator_run example_externals example_pipe 512 512 1 None
      30 (1 / 2) None (Some 47) example_world = (Inr call, (w' :: nat world))"
    using example_run by blast
  have "pb_total (pc_pbar call) = \<lfloor>real_of_int 30 * (1 / 2)\<rfloor> \<and> pb_current (pc_pbar call) = 0"
    by (rule run_registers_progress_total [OF _ _ r]) simp_all
  then show ?thesis using r by auto
qed

section \<open>Properties of \<open>resize_with_padding\<close>\<close>

lemma py_int_of_int: "py_int (real_of_int n) = n"
  by (simp add: py_int_def)

lemma py_int_pos: "1 \<le> py_int x \<Longrightarrow> 0 < x"
  by (auto simp: py_int_def split: if_splits)

lemma py_int_le: "0 \<le> x \<Longrightarrow> x \<le> real_of_int n \<Longrightarrow> py_int x \<le> n"
  by (simp add: py_int_def floor_le_iff)

lemma convert_rgba_RGBA: "convert_rgba RGBA p = p"
  by (cases "(RGBA, p)" rule: convert_rgba.cases) simp_all

lemma scaled_fits:
  fixes w h W H :: int
  defines "ratio \<equiv> min (real_of_int W / real_of_int w) (real_of_int H / real_of_int h)"
  assumes "0 < w" "0 < h"
    and "1 \<le> py_int (real_of_int w * ratio)" "1 \<le> py_int (real_of_int h * ratio)"
  shows "py_int (real_of_int w * ratio) \<le> W"
    and "py_int (real_of_int h * ratio) \<le> H"
    and "py_int (real_of_int w * ratio) = W \<or> py_int (real_of_int h * ratio) = H"
proof -
  have wr: "0 < real_of_int w * ratio" and hr: "0 < real_of_int h * ratio"
    using assms(4,5) by (auto dest: py_int_pos)
  have "ratio \<le> real_of_int W / real_of_int w" by (simp add: ratio_def)
  then have "real_of_int w * ratio \<le> real_of_int W"
    using \<open>0 < w\<close> by (simp add: pos_le_divide_eq mult.commute)
  then show "py_int (real_of_int w * ratio) \<le> W"
    using wr by (intro py_int_le) simp_all
  have "ratio \<le> real_of_int H / real_of_int h" by (simp add: ratio_def)
  then have "real_of_int h * ratio \<le> real_of_int H"
    using \<open>0 < h\<close> by (simp add: pos_le_divide_eq mult.commute)
  then show "py_int (real_of_int h * ratio) \<le> H"
    using hr by (intro py_int_le) simp_all
  show "py_int (real_of_int w * ratio) = W \<or> py_int (real_of_int h * ratio) = H"
  proof (cases "real_of_int W / real_of_int w \<le> real_of_int H / real_of_int h")
    case True
    then have "real_of_int w * ratio = real_of_int W"
      using \<open>0 < w\<close> by (simp add: ratio_def min_def)
    then show ?thesis by (simp add: py_int_of_int)
  next
    case False
    then have "real_of_int h * ratio = real_of_int H"
      using \<open>0 < h\<close> by (simp add: ratio_def min_def)
    then show ?thesis by (simp add: py_int_of_int)
  qed
qed


lemma resize_with_padding_Inr:
  assumes "resize_with_padding lanczos img sz = Inr out"
  shows "im_width out = fst sz" and "im_height out = snd sz" and "im_mode out = RGBA"
  using assms
  by (auto simp: resize_with_padding_def Let_def Image_new_def Image_paste_def
      split: sum.splits if_splits)

text \<open>
  Claim C5: for a source image with positive sides and a target size \<open>(W, H)\<close>, let
  \<open>ratio = min (W / width) (H / height)\<close> and let \<open>nw\<close> and \<open>nh\<close> be the sides scaled by it,
  truncated to integers. When both are at least 1, so that PIL accepts them,
  \<open>resize_with_padding\<close> resizes the image to \<open>(nw, nh)\<close> and returns an RGBA image of size
  exactly \<open>(W, H)\<close>. The scaled image fits (\<open>nw \<le> W\<close>, \<open>nh \<le> H\<close>) and fills one of the two
  sides; it lies in the box that starts at \<open>((W - nw) div 2, (H - nh) div 2)\<close>, whose margins
  on opposite sides differ by at most one pixel; every pixel outside the box is the
  transparent \<open>(0, 0, 0, 0)\<close>.
\<close>

theorem resize_with_padding_letterbox:
  fixes img :: pil_image and W H :: int
  defines "ratio \<equiv> min (real_of_int W / real_of_int (im_width img))
                        (real_of_int H / real_of_int (im_height img))"
  defines "nw \<equiv> py_int (real_of_int (im_width img) * ratio)"
  defines "nh \<equiv> py_int (real_of_int (im_height img) * ratio)"
  defines "x0 \<equiv> (W - nw) div 2"
  defines "y0 \<equiv> (H - nh) div 2"
  assumes "0 < im_width img" and "0 < im_height img" and "1 \<le> nw" and "1 \<le> nh"
  shows "\<exists>resized out.
           Image_resize lanczos img (nw, nh) = Inr resized
         \<and> im_width resized = nw \<and> im_height resized = nh \<and> im_mode resized = im_mode img
         \<and> resize_with_padding lanczos img (W, H) = Inr out
         \<and> im_width out = W \<and> im_height out = H \<and> im_mode out = RGBA
         \<and> nw \<le> W \<and> nh \<le> H \<and> (nw = W \<or> nh = H)
         \<and> 0 \<le> x0 \<and> x0 + nw \<le> W \<and> W - (x0 + nw) - x0 \<in> {0, 1}
         \<and> 0 \<le> y0 \<and> y0 + nh \<le> H \<and> H - (y0 + nh) - y0 \<in> {0, 1}
         \<and> (\<forall>x y. im_px out x y =
                (if x0 \<le> x \<and> x < x0 + nw \<and> y0 \<le> y \<and> y < y0 + nh
                 then convert_rgba (im_mode img) (im_px resized (x - x0) (y - y0))
                 else [0, 0, 0, 0]))"
proof -
  have fits: "nw \<le> W" "nh \<le> H" "nw = W \<or> nh = H"
    using scaled_fits [of "im_width img" "im_height img" W H] assms(6-9)
    unfolding nw_def nh_def ratio_def by blast+
  have "\<exists>resized. Image_resize lanczos img (nw, nh) = Inr resized
          \<and> im_width resized = nw \<and> im_height resized = nh \<and> im_mode resized = im_mode img"
  proof (cases "(im_width img, im_height img) = (nw, nh)")
    case True
    then show ?thesis by (simp add: Image_resize_def)
  next
    case False
    then show ?thesis using assms(8,9) by (simp add: Image_resize_def)
  qed
  then obtain resized where rs: "Image_resize lanczos img (nw, nh) = Inr resized"
    and rw: "im_width resized = nw" and rh: "im_height resized = nh"
    and rm: "im_mode resized = im_mode img"
    by blast
  have bg: "Image_new RGBA (W, H) [0, 0, 0, 0]
              = Inr \<lparr>im_width = W, im_height = H, im_mode = RGBA,
                     im_px = (\<lambda>x y. [0, 0, 0, 0])\<rparr>"
    using fits assms(8,9) by (simp add: Image_new_def)
  have rwp: "resize_with_padding lanczos img (W, H)
               = Inr (Image_paste \<lparr>im_width = W, im_height = H, im_mode = RGBA,
                                    im_px = (\<lambda>x y. [0, 0, 0, 0])\<rparr> resized (x0, y0))"
    using assms(6,7) rs bg
    by (simp add: resize_with_padding_def Let_def nw_def nh_def ratio_def x0_def y0_def)
  have pos: "0 \<le> x0" "x0 + nw \<le> W" "W - (x0 + nw) - x0 \<in> {0, 1}"
            "0 \<le> y0" "y0 + nh \<le> H" "H - (y0 + nh) - y0 \<in> {0, 1}"
    using fits unfolding x0_def y0_def by (simp_all, presburger+)
  show ?thesis
    using rs rw rh rm rwp fits pos
    by (auto simp: Image_paste_def)
qed

text \<open>
  Claim C6: for an image with positive sides whose size is the target size already,
  \<open>resize_with_padding\<close> returns an RGBA image of that size whose pixel at every coordinate
  is the input's pixel, converted to RGBA; for an RGBA input it is the input's pixel
  itself. Applied to its own result the function returns that result again.
\<close>

theorem resize_with_padding_same_size:
  assumes "0 < im_width img" and "0 < im_height img"
  shows "\<exists>out. resize_with_padding lanczos img (im_width img, im_height img) = Inr out
           \<and> im_width out = im_width img \<and> im_height out = im_height img
           \<and> im_mode out = RGBA
           \<and> (\<forall>x y. 0 \<le> x \<and> x < im_width img \<and> 0 \<le> y \<and> y < im_height img \<longrightarrow>
                 im_px out x y = convert_rgba (im_mode img) (im_px img x y))
           \<and> (im_mode img = RGBA \<longrightarrow>
                (\<forall>x y. 0 \<le> x \<and> x < im_width img \<and> 0 \<le> y \<and> y < im_height img \<longrightarrow>
                   im_px out x y = im_px img x y))
           \<and> resize_with_padding lanczos out (im_width img, im_height img) = Inr out"
proof -
  let ?w = "im_width img" and ?h = "im_height img"
  let ?bg = "\<lparr>im_width = ?w, im_height = ?h, im_mode = RGBA, im_px = (\<lambda>x y. [0, 0, 0, 0])\<rparr>"
  have one: "min (real_of_int (im_width i) / real_of_int (im_width i))
                 (real_of_int (im_height i) / real_of_int (im_height i)) = 1"
    if "0 < im_width i" "0 < im_height i" for i :: pil_image
    using that by simp
  have same: "resize_with_padding lanczos i (im_width i, im_height i)
                = Inr (Image_paste \<lparr>im_width = im_width i, im_height = im_height i,
                         im_mode = RGBA, im_px = (\<lambda>x y. [0, 0, 0, 0])\<rparr> i (0, 0))"
    if "0 < im_width i" "0 < im_height i" for i :: pil_image
    using that
    by (simp add: resize_with_padding_def Let_def one py_int_of_int Image_resize_def
        Image_new_def)
  let ?out = "Image_paste ?bg img (0, 0)"
  have o: "resize_with_padding lanczos img (?w, ?h) = Inr ?out"
    using same [OF assms] .
  have ow: "im_width ?out = ?w" and oh: "im_height ?out = ?h" and om: "im_mode ?out = RGBA"
    by (simp_all add: Image_paste_def)
  have px: "im_px ?out x y = convert_rgba (im_mode img) (im_px img x y)"
    if "0 \<le> x \<and> x < ?w \<and> 0 \<le> y \<and> y < ?h" for x y
    using that by (simp add: Image_paste_def)
  have again: "Image_paste ?bg ?out (0, 0) = ?out"
    by (simp add: Image_paste_def convert_rgba_RGBA fun_eq_iff)
  have "resize_with_padding lanczos ?out (im_width ?out, im_height ?out)
          = Inr (Image_paste \<lparr>im_width = im_width ?out, im_height = im_height ?out,
                   im_mode = RGBA, im_px = (\<lambda>x y. [0, 0, 0, 0])\<rparr> ?out (0, 0))"
    by (rule same) (simp_all add: ow oh assms)
  then have idem: "resize_with_padding lanczos ?out (?w, ?h) = Inr ?out"
    using again by (simp add: ow oh)
  show ?thesis
    using o ow oh om px idem by (auto simp: convert_rgba_RGBA)
qed


theorem resize_with_padding_letterbox_witness:
  "0 < im_width (grey_image 256 128) \<and> 0 < im_height (grey_image 256 128)
   \<and> 1 \<le> py_int (real_of_int (im_width (grey_image 256 128)) * 2)
   \<and> 1 \<le> py_int (real_of_int (im_height (grey_image 256 128)) * 2)
   \<and> (\<exists>out. resize_with_padding nearest (grey_image 256 128) (512, 512) = Inr out
          \<and> im_width out = 512 \<and> im_height out = 512 \<and> im_mode out = RGBA
          \<and> im_px out 0 127 = [0, 0, 0, 0]
          \<and> im_px out 0 128 = [128, 128, 128, 255]
          \<and> im_px out 511 383 = [128, 128, 128, 255]
          \<and> im_px out 511 384 = [0, 0, 0, 0])"
proof -
  have w: "0 < im_width (grey_image 256 128)" and h: "0 < im_height (grey_image 256 128)"
    by (simp_all add: grey_image_def)
  have r: "min (real_of_int 512 / real_of_int (im_width (grey_image 256 128)))
               (real_of_int 512 / real_of_int (im_height (grey_image 256 128))) = 2"
    by (simp add: grey_image_def)
  have nw: "py_int (real_of_int (im_width (grey_image 256 128)) * 2) = 512"
    and nh: "py_int (real_of_int (im_height (grey_image 256 128)) * 2) = 256"
    by (simp_all add: grey_image_def py_int_def)
  have px: "im_px resized x y = [128, 128, 128]"
    if "Image_resize nearest (grey_image 256 128) (512, 256) = Inr resized"
    for resized x y
    using that by (auto simp: Image_resize_def grey_image_def nearest_def)
  show ?thesis
    using resize_with_padding_letterbox [of "grey_image 256 128" 512 512 nearest, OF w h]
      w h px
    unfolding r nw nh
    by (auto simp: grey_image_def)
qed

theorem resize_with_padding_same_size_witness:
  "0 < im_width (grey_image 64 64) \<and> 0 < im_height (grey_image 64 64)
   \<and> (\<exists>out. resize_with_padding nearest (grey_image 64 64) (64, 64) = Inr out
          \<and> im_width out = 64 \<and> im_height out = 64 \<and> im_mode out = RGBA
          \<and> im_px out 0 0 = [128, 128, 128, 255]
          \<and> im_px out 63 63 = [128, 128, 128, 255]
          \<and> resize_with_padding nearest out (64, 64) = Inr out)"
proof -
  have w: "0 < im_width (grey_image 64 64)" and h: "0 < im_height (grey_image 64 64)"
    by (simp_all add: grey_image_def)
  have sz: "im_width (grey_image 64 64) = 64" "im_height (grey_image 64 64) = 64"
    "im_mode (grey_image 64 64) = RGB" "im_px (grey_image 64 64) x y = [128, 128, 128]" for x y
    by (simp_all add: grey_image_def)
  show ?thesis
    using resize_with_padding_same_size [OF w h, of nearest] w h
    unfolding sz by (auto simp: sz)
qed

section \<open>Properties of the resizing of the control units\<close>

lemma resize_units_frame:
  "resize_units lanczos sz us s = (err, s') \<Longrightarrow>
     cu_controlnet (s' r) = cu_controlnet (s r) \<and> cu_scale (s' r) = cu_scale (s r)
     \<and> cu_start (s' r) = cu_start (s r) \<and> cu_end (s' r) = cu_end (s r)"
proof (induction us arbitrary: s)
  case Nil
  then show ?case by simp
next
  case (Cons u us)
  show ?case
  proof (cases "resize_with_padding lanczos (cu_image (s u)) sz")
    case (Inl e)
    with Cons.prems show ?thesis by simp
  next
    case (Inr im)
    with Cons.prems have
      "resize_units lanczos sz us (s(u := (s u)\<lparr>cu_image := im\<rparr>)) = (err, s')"
      by simp
    from Cons.IH [OF this] show ?thesis by (simp split: if_splits)
  qed
qed

lemma resize_units_other:
  "resize_units lanczos sz us s = (err, s') \<Longrightarrow> r \<notin> set us \<Longrightarrow> s' r = s r"
proof (induction us arbitrary: s)
  case Nil
  then show ?case by simp
next
  case (Cons u us)
  show ?case
  proof (cases "resize_with_padding lanczos (cu_image (s u)) sz")
    case (Inl e)
    with Cons.prems show ?thesis by simp
  next
    case (Inr im)
    with Cons.prems have
      "resize_units lanczos sz us (s(u := (s u)\<lparr>cu_image := im\<rparr>)) = (err, s')"
      by simp
    from Cons.IH [OF this] Cons.prems(2) show ?thesis by simp
  qed
qed

lemma resize_units_image:
  "resize_units lanczos sz us s = (None, s') \<Longrightarrow> r \<in> set us \<Longrightarrow>
     \<exists>src. resize_with_padding lanczos src sz = Inr (cu_image (s' r))
        \<and> (distinct us \<longrightarrow> src = cu_image (s r))"
proof (induction us arbitrary: s)
  case Nil
  then show ?case by simp
next
  case (Cons u us)
  show ?case
  proof (cases "resize_with_padding lanczos (cu_image (s u)) sz")
    case (Inl e)
    with Cons.prems show ?thesis by simp
  next
    case (Inr im)
    let ?s1 = "s(u := (s u)\<lparr>cu_image := im\<rparr>)"
    from Inr Cons.prems have rest: "resize_units lanczos sz us ?s1 = (None, s')"
      by simp
    show ?thesis
    proof (cases "r \<in> set us")
      case True
      from Cons.IH [OF rest True] obtain src where
        a: "resize_with_padding lanczos src sz = Inr (cu_image (s' r))"
        and b: "distinct us \<longrightarrow> src = cu_image (?s1 r)"
        by blast
      have "distinct (u # us) \<longrightarrow> src = cu_image (s r)"
        using b True by auto
      with a show ?thesis by blast
    next
      case False
      with Cons.prems(2) have ru: "r = u" by simp
      have "s' r = ?s1 r"
        using resize_units_other [OF rest False] .
      then have "cu_image (s' r) = im" using ru by simp
      with Inr ru show ?thesis by auto
    qed
  qed
qed


text \<open>
  Claim C10: when a run given the tuple \<open>us\<close> of unit references reaches the call of the
  pipeline, the units in the store have been changed in place. Every unit keeps its
  control network, scale, start and end, and a unit outside the tuple is untouched. The
  image of every unit of the tuple is an RGBA image of the canvas size, which is read off
  the image batch: it is the result of \<open>resize_with_padding\<close>, applied to the unit's
  original image when no unit occurs twice in the tuple, and it differs from the original
  whenever that was not an RGBA image.
\<close>

theorem run_resizes_units_in_place:
  assumes "DiffusersGenerator_run x p width height batch_size images num_inference_steps
             strength (Some us) seed w = (Inr call, w')"
  shows "(\<forall>r. cu_controlnet (units w' r) = cu_controlnet (units w r)
              \<and> cu_scale (units w' r) = cu_scale (units w r)
              \<and> cu_start (units w' r) = cu_start (units w r)
              \<and> cu_end (units w' r) = cu_end (units w r))
         \<and> (\<forall>r. r \<notin> set us \<longrightarrow> units w' r = units w r)
         \<and> (\<forall>r \<in> set us.
               im_width (cu_image (units w' r)) = int (pc_width call)
             \<and> im_height (cu_image (units w' r)) = int (pc_height call)
             \<and> im_mode (cu_image (units w' r)) = RGBA
             \<and> (\<exists>src. resize_with_padding (x_lanczos x) src
                          (int (pc_width call), int (pc_height call))
                        = Inr (cu_image (units w' r))
                      \<and> (distinct us \<longrightarrow> src = cu_image (units w r)))
             \<and> (im_mode (cu_image (units w r)) \<noteq> RGBA \<longrightarrow>
                  cu_image (units w' r) \<noteq> cu_image (units w r)))
         \<and> pc_width call = shape (pc_image call) ! 2
         \<and> pc_height call = shape (pc_image call) ! 1"
proof -
  let ?sz = "(int (pc_width call), int (pc_height call))"
  have ru: "resize_units (x_lanczos x) ?sz us (units w) = (None, units w')"
    using run_success(6) [OF assms] by simp
  have frame: "cu_controlnet (units w' r) = cu_controlnet (units w r)
              \<and> cu_scale (units w' r) = cu_scale (units w r)
              \<and> cu_start (units w' r) = cu_start (units w r)
              \<and> cu_end (units w' r) = cu_end (units w r)" for r
    using resize_units_frame [OF ru] .
  have other: "r \<notin> set us \<Longrightarrow> units w' r = units w r" for r
    using resize_units_other [OF ru] .
  have img: "im_width (cu_image (units w' r)) = int (pc_width call)
             \<and> im_height (cu_image (units w' r)) = int (pc_height call)
             \<and> im_mode (cu_image (units w' r)) = RGBA
             \<and> (\<exists>src. resize_with_padding (x_lanczos x) src ?sz = Inr (cu_image (units w' r))
                      \<and> (distinct us \<longrightarrow> src = cu_image (units w r)))
             \<and> (im_mode (cu_image (units w r)) \<noteq> RGBA \<longrightarrow>
                  cu_image (units w' r) \<noteq> cu_image (units w r))"
    if "r \<in> set us" for r
  proof -
    from resize_units_image [OF ru that] obtain src where
      a: "resize_with_padding (x_lanczos x) src ?sz = Inr (cu_image (units w' r))"
      and b: "distinct us \<longrightarrow> src = cu_image (units w r)"
      by blast
    have m: "im_mode (cu_image (units w' r)) = RGBA"
      using resize_with_padding_Inr(3) [OF a] .
    have "im_width (cu_image (units w' r)) = int (pc_width call)"
      "im_height (cu_image (units w' r)) = int (pc_height call)"
      using resize_with_padding_Inr(1,2) [OF a] by simp_all
    moreover have "im_mode (cu_image (units w r)) \<noteq> RGBA \<longrightarrow>
                     cu_image (units w' r) \<noteq> cu_image (units w r)"
      using m by auto
    ultimately show ?thesis using a b m by blast
  qed
  show ?thesis
    using frame other img run_success(3,4) [OF assms] by blast
qed

lemma example_run_units:
  "\<exists>call w'. DiffusersGenerator_run example_externals example_pipe 512 512 1 None 30 1
       (Some [0, 1]) (Some 47) example_world = (Inr call, w')"
  by (simp add: DiffusersGenerator_run_def example_externals_def Let_def
      DiffusersGenerator_generator_def DiffusersGenerator_seed_def
      prepare_latents_def example_pipe_def seed_randn_def
      latents_to_img_tensor_def tensor_div_def tensor_mul_def tensor_to_dtype_def
      block_decode_def postprocess_def tensor_nan_to_num_def tensor_permute_0231_def
      example_world_def example_unit_def grey_image_def
      resize_with_padding_def Image_resize_def Image_new_def py_int_def
      split: prod.splits)

theorem run_resizes_units_in_place_witness:
  "\<exists>call w'. DiffusersGenerator_run example_externals example_pipe 512 512 1 None 30 1
       (Some [0, 1]) (Some 47) example_world = (Inr call, w')
     \<and> pc_width call = 512 \<and> pc_height call = 512
     \<and> im_width (cu_image (units w' 0)) = 512 \<and> im_height (cu_image (units w' 0)) = 512
     \<and> im_mode (cu_image (units w' 1)) = RGBA
     \<and> cu_image (units w' 0) \<noteq> cu_image (units example_world 0)
     \<and> cu_scale (units w' 0) = 1 \<and> cu_end (units w' 1) = 1
     \<and> units w' 2 = example_unit"
proof -
  obtain call w' where r: "DiffusersGenerator_run example_externals example_pipe 512 512 1
      None 30 1 (Some [0, 1]) (Some 47) example_world = (Inr call, (w' :: nat world))"
    using example_run_units by blast
  have sh: "shape (pc_image call) = [1, 512, 512, 3]"
    using r
    by (auto simp: DiffusersGenerator_run_def example_externals_def Let_def
      DiffusersGenerator_generator_def DiffusersGenerator_seed_def
      prepare_latents_def example_pipe_def seed_randn_def
      latents_to_img_tensor_def tensor_div_def tensor_mul_def tensor_to_dtype_def
      block_decode_def postprocess_def tensor_nan_to_num_def tensor_permute_0231_def
      split: prod.splits option.splits if_splits)
  have m: "im_mode (cu_image (units example_world r)) \<noteq> RGBA" for r
    by (simp add: example_world_def example_unit_def grey_image_def)
  have u: "units example_world r = example_unit" "cu_scale example_unit = 1"
    "cu_end example_unit = 1" for r
    by (simp_all add: example_world_def example_unit_def)
  show ?thesis
    using run_resizes_units_in_place [OF r] r m sh
    by (auto simp: u)
qed

section \<open>Properties of the conversion to a PIL image\<close>

lemma to_uint8_less: "to_uint8 v < 256"
  by (cases v) (simp_all add: nat_less_iff)

lemma to_uint8_again: "nat (py_int (real (to_uint8 v)) mod 256) = to_uint8 v"
proof -
  have "py_int (real (to_uint8 v)) = int (to_uint8 v)"
    using py_int_of_int [of "int (to_uint8 v)"] by simp
  then show ?thesis
    using to_uint8_less [of v] by simp
qed

lemma shape4: "length (shape t) = 4 \<Longrightarrow> \<exists>b h w c. shape t = [b, h, w, c]"
  by (auto simp: numeral_eq_Suc length_Suc_conv)

text \<open>
  Claim C9: for an image tensor of four dimensions (batch, height, width, channels),
  \<open>comfy_image_to_pil\<close> returns an image only if the batch dimension is 1. For any other
  batch size \<open>squeeze(0)\<close> leaves the four dimensions in place, \<open>Image.fromarray\<close> refuses
  the array, and so \<open>DiffusersControlNetUnit.run\<close> fails instead of converting one of the
  images. A batch of one image of 2, 3 or 4 channels on the CPU is converted, each
  element scaled by 255 and truncated to a byte.
\<close>

theorem comfy_image_to_pil_batch_one:
  assumes "length (shape t) = 4"
  shows "(\<forall>im. comfy_image_to_pil t = Inr im \<longrightarrow> shape t ! 0 = 1)
         \<and> (shape t ! 0 \<noteq> 1 \<longrightarrow>
              comfy_image_to_pil t = Inl ExternalFailure
            \<and> DiffusersControlNetUnit_run controlnet t scale start end' = Inl ExternalFailure)
         \<and> (shape t ! 0 = 1 \<and> device t = CPU \<and> shape t ! 3 \<in> {2, 3, 4} \<longrightarrow>
              (\<exists>im. comfy_image_to_pil t = Inr im
                 \<and> im_width im = int (shape t ! 2) \<and> im_height im = int (shape t ! 1)
                 \<and> (\<forall>x y. im_px im x y =
                       map (\<lambda>k. to_uint8 (fmul (elem t [0, nat y, nat x, k]) 255))
                         [0..<shape t ! 3])))"
proof -
  from shape4 [OF assms] obtain b h w c where s: "shape t = [b, h, w, c]"
    by blast
  have fail: "comfy_image_to_pil t = Inl ExternalFailure" if "b \<noteq> 1"
    using that s
    by (simp add: comfy_image_to_pil_def tensor_squeeze0_def tensor_mul_def
        tensor_to_uint8_def fromarray_numpy_def Let_def)
  have ok: "\<exists>im. comfy_image_to_pil t = Inr im
              \<and> im_width im = int w \<and> im_height im = int h
              \<and> (\<forall>x y. im_px im x y =
                    map (\<lambda>k. to_uint8 (fmul (elem t [0, nat y, nat x, k]) 255)) [0..<c])"
    if "b = 1" "device t = CPU" "c \<in> {2, 3, 4}"
    using that s
    by (auto simp: comfy_image_to_pil_def tensor_squeeze0_def tensor_mul_def
        tensor_to_uint8_def fromarray_numpy_def to_uint8_again Let_def)
  have only: "shape t ! 0 = 1" if "comfy_image_to_pil t = Inr im" for im
  proof (rule ccontr)
    assume "shape t ! 0 \<noteq> 1"
    then have "b \<noteq> 1" using s by simp
    from fail [OF this] that show False by simp
  qed
  have unit: "DiffusersControlNetUnit_run controlnet t scale start end' = Inl ExternalFailure"
    if "b \<noteq> 1"
    using fail [OF that] by (simp add: DiffusersControlNetUnit_run_def)
  have c1: "\<forall>im. comfy_image_to_pil t = Inr im \<longrightarrow> shape t ! 0 = 1"
    using only by blast
  have c2: "shape t ! 0 \<noteq> 1 \<longrightarrow>
              comfy_image_to_pil t = Inl ExternalFailure
            \<and> DiffusersControlNetUnit_run controlnet t scale start end' = Inl ExternalFailure"
    using fail unit s by simp
  have c3: "shape t ! 0 = 1 \<and> device t = CPU \<and> shape t ! 3 \<in> {2, 3, 4} \<longrightarrow>
              (\<exists>im. comfy_image_to_pil t = Inr im
                 \<and> im_width im = int (shape t ! 2) \<and> im_height im = int (shape t ! 1)
                 \<and> (\<forall>x y. im_px im x y =
                       map (\<lambda>k. to_uint8 (fmul (elem t [0, nat y, nat x, k]) 255))
                         [0..<shape t ! 3]))"
    using ok s by simp
  show ?thesis
    using c1 c2 c3 by blast
qed

theorem comfy_image_to_pil_batch_one_witness:
  "length (shape two_images) = 4 \<and> shape two_images ! 0 \<noteq> 1
   \<and> comfy_image_to_pil two_images = Inl ExternalFailure
   \<and> DiffusersControlNetUnit_run (0::nat) two_images 1 0 1 = Inl ExternalFailure
   \<and> length (shape one_image) = 4 \<and> shape one_image ! 0 = 1 \<and> device one_image = CPU
   \<and> shape one_image ! 3 \<in> {2, 3, 4}
   \<and> (\<exists>im. comfy_image_to_pil one_image = Inr im \<and> im_width im = 64 \<and> im_height im = 64
          \<and> im_px im 0 0 = [127, 127, 127])"
proof -
  have l2: "length (shape two_images) = 4" and l1: "length (shape one_image) = 4"
    by (simp_all add: two_images_def one_image_def)
  have b2: "shape two_images ! 0 \<noteq> 1"
    by (simp add: two_images_def)
  have b1: "shape one_image ! 0 = 1 \<and> device one_image = CPU \<and> shape one_image ! 3 \<in> {2, 3, 4}"
    by (simp add: one_image_def)
  have e: "to_uint8 (fmul (elem one_image idx) 255) = 127" for idx
    by (simp add: one_image_def py_int_def)
  have s1: "shape one_image ! 2 = 64" "shape one_image ! Suc 0 = 64" "shape one_image ! 3 = 3"
    by (simp_all add: one_image_def)
  have u: "[0..<3] = [0, 1, 2]"
    by (simp add: upt_rec)
  show ?thesis
    using comfy_image_to_pil_batch_one [OF l2, of 0 1 0 1]
      comfy_image_to_pil_batch_one [OF l1, of 0 1 0 1] l1 l2 b1 b2
    by (auto simp: e s1 u)
qed

section \<open>Properties of the decoder adapter\<close>

lemma denormalize_cases:
  "denormalize (Fin a) = Fin (max 0 (min 1 (a / 2 + 1 / 2)))"
  "denormalize PInf = Fin 1"
  "denormalize NInf = Fin 0"
  "denormalize NaN = NaN"
  by (simp_all add: denormalize_def)

lemma denormalize_range:
  "denormalize v = NaN \<or> (\<exists>r. denormalize v = Fin r \<and> 0 \<le> r \<and> r \<le> 1)"
  by (cases v) (auto simp: denormalize_cases)

lemma denormalize_finite: "denormalize v \<noteq> PInf \<and> denormalize v \<noteq> NInf"
  by (cases v) (simp_all add: denormalize_cases)

lemma nan_to_num_denormalize:
  "\<exists>r. nan_to_num dt (denormalize v) = Fin r \<and> 0 \<le> r \<and> r \<le> 1"
  using denormalize_range [of v] by auto

text \<open>
  Claim C7: \<open>latents_to_img_tensor\<close> hands the decoder the latent with every element
  divided by the scaling factor and the element type set to the decoder's. When the
  decoder returns a tensor of shape \<open>[B, C, H, W]\<close> for a latent of batch size \<open>B > 0\<close>, the
  result has shape \<open>[B, H, W, C]\<close> and element type \<open>float32\<close>; its element at
  \<open>[b, h, w, c]\<close>, for every sample \<open>b\<close> of the batch, is the decoded element at
  \<open>[b, c, h, w]\<close>, denormalized and passed through \<open>nan_to_num\<close>. A denormalized value is
  never infinite (the clamp turns the infinities into 1 and 0), a NaN among them becomes
  0, and every element of the result is a finite number from 0 to 1.
\<close>

theorem latents_to_img_tensor_decodes:
  assumes dec: "vae_decode (tensor_to_dtype (tensor_div latents (scaling_factor p)) vae_dtype)
                  = Some dec_tensor"
    and shp: "shape dec_tensor = [B, C, H, W]"
    and lat: "shape latents = B # rest"
    and pos: "0 < B"
  shows "\<exists>res. latents_to_img_tensor vae_decode vae_dtype p latents = Inr res
           \<and> dtype (tensor_to_dtype (tensor_div latents (scaling_factor p)) vae_dtype) = vae_dtype
           \<and> (\<forall>idx. elem (tensor_to_dtype (tensor_div latents (scaling_factor p)) vae_dtype) idx
                      = fdiv (elem latents idx) (scaling_factor p))
           \<and> shape res = [B, H, W, C] \<and> dtype res = Float32
           \<and> (\<forall>b h w c. b < B \<longrightarrow>
                  elem res [b, h, w, c]
                    = nan_to_num (dtype dec_tensor) (denormalize (elem dec_tensor [b, c, h, w]))
                \<and> denormalize (elem dec_tensor [b, c, h, w]) \<noteq> PInf
                \<and> denormalize (elem dec_tensor [b, c, h, w]) \<noteq> NInf
                \<and> (denormalize (elem dec_tensor [b, c, h, w]) = NaN \<longrightarrow>
                     elem res [b, h, w, c] = Fin 0)
                \<and> (\<exists>r. elem res [b, h, w, c] = Fin r \<and> 0 \<le> r \<and> r \<le> 1))"
proof -
  let ?scaled = "tensor_to_dtype (tensor_div latents (scaling_factor p)) vae_dtype"
  let ?images = "dec_tensor\<lparr>elem := (\<lambda>idx.
                   if replicate B True ! hd idx then denormalize (elem dec_tensor idx)
                   else elem dec_tensor idx)\<rparr>"
  let ?res = "(tensor_to_dtype (tensor_nan_to_num ?images) Float32)
                \<lparr>shape := [B, H, W, C],
                 elem := (\<lambda>idx. elem (tensor_to_dtype (tensor_nan_to_num ?images) Float32)
                                   (permute_0231_index idx))\<rparr>"
  have ss: "shape ?scaled = B # rest"
    using lat by (simp add: tensor_to_dtype_def tensor_div_def)
  have pp: "postprocess dec_tensor (replicate B True) = Inr ?images"
    using shp pos by (simp add: postprocess_def)
  have perm: "tensor_permute_0231 (tensor_to_dtype (tensor_nan_to_num ?images) Float32)
                = Inr ?res"
    using shp by (simp add: tensor_permute_0231_def tensor_to_dtype_def tensor_nan_to_num_def)
  have r: "latents_to_img_tensor vae_decode vae_dtype p latents = Inr ?res"
    using dec ss pp perm by (simp add: latents_to_img_tensor_def Let_def)
  have el: "elem ?res [b, h, w, c]
              = nan_to_num (dtype dec_tensor) (denormalize (elem dec_tensor [b, c, h, w]))"
    if "b < B" for b h w c
    using that by (simp add: tensor_to_dtype_def tensor_nan_to_num_def)
  have nan: "elem ?res [b, h, w, c] = Fin 0"
    if "b < B" "denormalize (elem dec_tensor [b, c, h, w]) = NaN" for b h w c
    using el [OF that(1)] that(2) by simp
  have rng: "\<exists>r. elem ?res [b, h, w, c] = Fin r \<and> 0 \<le> r \<and> r \<le> 1"
    if "b < B" for b h w c
    using el [OF that] nan_to_num_denormalize by simp
  have sc: "dtype ?scaled = vae_dtype"
    "\<And>idx. elem ?scaled idx = fdiv (elem latents idx) (scaling_factor p)"
    by (simp_all add: tensor_to_dtype_def tensor_div_def)
  have shr: "shape ?res = [B, H, W, C]" "dtype ?res = Float32"
    by (simp_all add: tensor_to_dtype_def)
  show ?thesis
    using r sc shr el nan rng denormalize_finite by blast
qed


theorem latents_to_img_tensor_decodes_witness:
  "(\<exists>d. block_decode (tensor_to_dtype (tensor_div nan_latent (scaling_factor example_pipe))
            Float32) = Some d \<and> shape d = [1, 3, 512, 512])
   \<and> shape nan_latent = 1 # [4, 64, 64] \<and> (0::nat) < 1
   \<and> (\<exists>res. latents_to_img_tensor block_decode Float32 example_pipe nan_latent = Inr res
          \<and> shape res = [1, 512, 512, 3] \<and> dtype res = Float32
          \<and> elem res [0, 7, 7, 0] = Fin 0
          \<and> elem res [0, 8, 7, 0] = Fin (3 / 4)
          \<and> elem res [0, 7, 7, 1] = Fin (3 / 4))"
proof -
  let ?scaled = "tensor_to_dtype (tensor_div nan_latent (scaling_factor example_pipe)) Float32"
  have "\<exists>d. block_decode ?scaled = Some d \<and> shape d = [1, 3, 512, 512] \<and> dtype d = Float32
          \<and> (\<forall>i k y x. elem d [i, k, y, x]
                = fdiv (elem nan_latent [i, k, y div 8, x div 8]) (1 / 4))"
    by (simp add: block_decode_def tensor_to_dtype_def tensor_div_def nan_latent_def
        example_pipe_def)
  then obtain d where d: "block_decode ?scaled = Some d"
    and ds: "shape d = [1, 3, 512, 512]" and dd: "dtype d = Float32"
    and de: "\<And>i k y x. elem d [i, k, y, x]
                = fdiv (elem nan_latent [i, k, y div 8, x div 8]) (1 / 4)"
    by blast
  have lat: "shape nan_latent = 1 # [4, 64, 64]"
    by (simp add: nan_latent_def)
  have v: "elem d [0, 0, 7, 7] = NaN" "elem d [0, 0, 8, 7] = Fin (1 / 2)"
    "elem d [0, 1, 7, 7] = Fin (1 / 2)"
    by (simp_all add: de nan_latent_def)
  have n: "denormalize NaN = NaN" "denormalize (Fin (1 / 2)) = Fin (3 / 4)"
    by (simp_all add: denormalize_def)
  from latents_to_img_tensor_decodes [where vae_decode = block_decode
      and latents = nan_latent and p = example_pipe and vae_dtype = Float32, OF d ds lat]
  obtain res where
    r: "latents_to_img_tensor block_decode Float32 example_pipe nan_latent = Inr res"
    and rs: "shape res = [1, 512, 512, 3]" "dtype res = Float32"
    and re: "\<And>b h w c. b < 1 \<Longrightarrow> elem res [b, h, w, c]
               = nan_to_num (dtype d) (denormalize (elem d [b, c, h, w]))"
    by auto
  have "elem res [0, 7, 7, 0] = Fin 0" "elem res [0, 8, 7, 0] = Fin (3 / 4)"
    "elem res [0, 7, 7, 1] = Fin (3 / 4)"
    using re [of 0 7 7 0] re [of 0 8 7 0] re [of 0 7 7 1] by (simp_all only: v n nan_to_num.simps zero_less_one)
  then show ?thesis
    using d ds lat r rs by auto
qed

end
